theory Spec2Isabelle
  imports Main
begin

text \<open>
  A shallow embedding of \<^verbatim>\<open>src/index.js\<close>, a Telegram bot. The bot presents itself as
  a support terminal, classifies a wallet address, queries balance providers for it,
  then asks the user for the wallet's private key or seed phrase and posts what the user
  typed to a form endpoint. The theory models the address classifier, the scanner, the
  relay to the form endpoint and the per-chat session handling, and states what the
  code does; it takes no view on the purpose of the program.
\<close>

section \<open>Regular expressions used by the address validators\<close>

text \<open>
  The validators of \<^verbatim>\<open>src/index.js\<close> are anchored JavaScript regular expressions
  (\<^verbatim>\<open>^...$\<close>, no flags). They are embedded as data and run by a small matcher:
  \<open>run r s\<close> lists every remainder of \<open>s\<close> that is left after \<open>r\<close> has matched a prefix
  of \<open>s\<close>, so that backtracking is the list of alternatives. A character class is its
  list of ranges, compared by character code.
\<close>

datatype rx =
    Lit string
  | Cls "(char \<times> char) list"
  | Alt rx rx
  | Seq rx rx
  | Rep rx nat nat

definition in_range :: "char \<Rightarrow> char \<times> char \<Rightarrow> bool" where
  "in_range c r = ((of_char (fst r) :: nat) \<le> of_char c \<and> (of_char c :: nat) \<le> of_char (snd r))"

definition in_class :: "(char \<times> char) list \<Rightarrow> char \<Rightarrow> bool" where
  "in_class rs c = list_ex (in_range c) rs"

fun iter :: "(string \<Rightarrow> string list) \<Rightarrow> nat \<Rightarrow> nat \<Rightarrow> string \<Rightarrow> string list" where
  "iter f m 0 s = (if m = 0 then [s] else [])"
| "iter f m (Suc n) s = (if m = 0 then [s] else []) @ concat (map (iter f (m - 1) n) (f s))"

fun run :: "rx \<Rightarrow> string \<Rightarrow> string list" where
  "run (Lit l) s = (if take (length l) s = l then [drop (length l) s] else [])"
| "run (Cls rs) s = (case s of [] \<Rightarrow> [] | c # cs \<Rightarrow> if in_class rs c then [cs] else [])"
| "run (Alt a b) s = run a s @ run b s"
| "run (Seq a b) s = concat (map (run b) (run a s))"
| "run (Rep a m n) s = iter (\<lambda>t. run a t) m n s"

text \<open>\<^verbatim>\<open>/^r$/.test(s)\<close>: some way of matching consumes the whole string.\<close>

definition test :: "rx \<Rightarrow> string \<Rightarrow> bool" where
  "test r s = ([] \<in> set (run r s))"

text \<open>\<^verbatim>\<open>/r/.test(s)\<close> without anchors: a match starts at some position.\<close>

fun search :: "rx \<Rightarrow> string \<Rightarrow> bool" where
  "search r [] = (run r [] \<noteq> [])"
| "search r (c # cs) = (run r (c # cs) \<noteq> [] \<or> search r cs)"

section \<open>Address validation functions\<close>

definition hex_class :: "(char \<times> char) list" where
  "hex_class = [(CHR ''a'', CHR ''f''), (CHR ''A'', CHR ''F''), (CHR ''0'', CHR ''9'')]"

definition btc_class :: "(char \<times> char) list" where
  "btc_class = [(CHR ''a'', CHR ''z''), (CHR ''A'', CHR ''H''), (CHR ''J'', CHR ''N''),
                (CHR ''P'', CHR ''Z''), (CHR ''0'', CHR ''9'')]"

definition xrp_class :: "(char \<times> char) list" where
  "xrp_class = [(CHR ''1'', CHR ''9''), (CHR ''A'', CHR ''H''), (CHR ''J'', CHR ''N''),
                (CHR ''P'', CHR ''Z''), (CHR ''a'', CHR ''k''), (CHR ''m'', CHR ''z'')]"

text \<open>\<^verbatim>\<open>/^0x[a-fA-F0-9]{40}$/\<close>\<close>

definition validateEVMAddress :: "string \<Rightarrow> bool" where
  "validateEVMAddress address = test (Seq (Lit ''0x'') (Rep (Cls hex_class) 40 40)) address"

text \<open>\<^verbatim>\<open>/^(bc1|[13])[a-zA-HJ-NP-Z0-9]{25,39}$/\<close>\<close>

definition validateBTCAddress :: "string \<Rightarrow> bool" where
  "validateBTCAddress address =
     test (Seq (Alt (Lit ''bc1'') (Cls [(CHR ''1'', CHR ''1''), (CHR ''3'', CHR ''3'')]))
               (Rep (Cls btc_class) 25 39)) address"

text \<open>\<^verbatim>\<open>/^r[1-9A-HJ-NP-Za-km-z]{25,34}$/\<close>\<close>

definition validateXRPAddress :: "string \<Rightarrow> bool" where
  "validateXRPAddress address = test (Seq (Lit ''r'') (Rep (Cls xrp_class) 25 34)) address"

datatype addr_type = evm | btc | xrp

text \<open>The JavaScript function returns the tag or \<^verbatim>\<open>null\<close>; \<open>None\<close> is \<^verbatim>\<open>null\<close>.\<close>

definition identifyAddressType :: "string \<Rightarrow> addr_type option" where
  "identifyAddressType address =
     (if validateEVMAddress address then Some evm
      else if validateBTCAddress address then Some btc
      else if validateXRPAddress address then Some xrp
      else None)"

section \<open>Blockchain scanner\<close>

text \<open>
  The providers are outside the program. A promise of a provider call either fulfils
  with the fields the code reads, or it does not: \<open>Rejected\<close> stands for a rejected
  promise and for a response that lacks a field the code dereferences (a
  \<^verbatim>\<open>TypeError\<close> raised inside the same \<^verbatim>\<open>try\<close>).
\<close>

datatype 'a settled = Fulfilled 'a | Rejected

text \<open>
  \<^verbatim>\<open>new Alchemy(settings)\<close> is evaluated before the \<^verbatim>\<open>try\<close> of
  \<^verbatim>\<open>getEVMWalletData\<close>: either the constructor throws (with a message), or there is a
  client whose \<^verbatim>\<open>core.getBalance\<close> settles with the decimal text of the balance and
  whose \<^verbatim>\<open>core.getTokensForOwner\<close> settles with the length of the token list.
\<close>

datatype alchemy_sdk = ConstructorThrows string | Client "string settled" "nat settled"

text \<open>
  \<^verbatim>\<open>data.chain_stats\<close> of the Bitcoin explorer: \<^verbatim>\<open>funded_txo_sum\<close>,
  \<^verbatim>\<open>spent_txo_sum\<close> and \<^verbatim>\<open>tx_count\<close>, each an integer or absent. An answer without
  \<^verbatim>\<open>chain_stats\<close> makes the probe's \<^verbatim>\<open>try\<close> fail and is \<open>Rejected\<close>.
\<close>

datatype btc_data = ChainStats "int option" "int option" "int option"

text \<open>
  The XRP explorer's answer: \<^verbatim>\<open>data.balances\<close> as pairs of a currency and a value,
  the value a text or absent, and \<^verbatim>\<open>data.transaction_count\<close> when present. An answer
  without \<^verbatim>\<open>balances\<close> makes the probe's \<^verbatim>\<open>try\<close> fail and is \<open>Rejected\<close>.
\<close>

datatype xrp_data = Balances "(string \<times> string option) list" "int option"

record world =
  alchemy :: "string \<Rightarrow> string \<Rightarrow> alchemy_sdk"
  blockstream :: "string \<Rightarrow> btc_data settled"
  ripple :: "string \<Rightarrow> xrp_data settled"

text \<open>
  A balance is the text of a big number (\<^verbatim>\<open>balance.toString()\<close>), an integer that a
  double holds exactly, the \<^verbatim>\<open>parseFloat\<close> of a text or the rounded difference of two
  integers, both left unevaluated, or \<^verbatim>\<open>NaN\<close>.
\<close>

datatype amount = Text string | Units int | ParseFloat string | Rounded int int | NaN

text \<open>The integers that a double holds exactly.\<close>

definition safe_integer :: "int \<Rightarrow> bool" where
  "safe_integer x = (\<bar>x\<bar> \<le> 2 ^ 53)"

text \<open>
  \<^verbatim>\<open>funded_txo_sum - spent_txo_sum\<close> on numbers: exact where both numbers and their
  difference are safe integers, \<^verbatim>\<open>NaN\<close> where one of them is \<^verbatim>\<open>undefined\<close>.
\<close>

definition minus_number :: "int option \<Rightarrow> int option \<Rightarrow> amount" where
  "minus_number funded spent =
     (case (funded, spent) of
        (Some x, Some y) \<Rightarrow>
          if safe_integer x \<and> safe_integer y \<and> safe_integer (x - y) then Units (x - y)
          else Rounded x y
      | _ \<Rightarrow> NaN)"

record probe_result =
  success :: bool
  balance :: "amount option"
  tokenCount :: "nat option"
  txCount :: "int option"
  name :: "string option"
  symbol :: "string option"

text \<open>\<^verbatim>\<open>{ success: false }\<close>\<close>

definition failed :: probe_result where
  "failed = \<lparr>success = False, balance = None, tokenCount = None, txCount = None,
             name = None, symbol = None\<rparr>"

text \<open>\<^verbatim>\<open>this.chains.evm\<close>: chain key, display name and symbol, in declaration order.\<close>

definition chains_evm :: "(string \<times> string \<times> string) list" where
  "chains_evm = [(''eth'', ''Ethereum'', ''ETH''),
                 (''polygon'', ''Polygon'', ''MATIC''),
                 (''bsc'', ''Binance Smart Chain'', ''BNB'')]"

text \<open>
  The keys that the object \<^verbatim>\<open>this.chains.evm\<close> inherits from \<^verbatim>\<open>Object.prototype\<close>,
  each with the \<^verbatim>\<open>name\<close> of its value when the value has one; none of the values has
  \<^verbatim>\<open>settings\<close> or \<^verbatim>\<open>symbol\<close>.
\<close>

definition object_prototype :: "(string \<times> string option) list" where
  "object_prototype =
     [(''constructor'', Some ''Object''),
      (''__defineGetter__'', Some ''__defineGetter__''),
      (''__defineSetter__'', Some ''__defineSetter__''),
      (''hasOwnProperty'', Some ''hasOwnProperty''),
      (''__lookupGetter__'', Some ''__lookupGetter__''),
      (''__lookupSetter__'', Some ''__lookupSetter__''),
      (''isPrototypeOf'', Some ''isPrototypeOf''),
      (''propertyIsEnumerable'', Some ''propertyIsEnumerable''),
      (''toString'', Some ''toString''),
      (''valueOf'', Some ''valueOf''),
      (''__proto__'', None),
      (''toLocaleString'', Some ''toLocaleString'')]"

text \<open>
  \<^verbatim>\<open>this.chains.evm[chain]\<close>: \<open>None\<close> when the value is \<^verbatim>\<open>undefined\<close>, otherwise the
  \<^verbatim>\<open>name\<close> and the \<^verbatim>\<open>symbol\<close> of the value.
\<close>

definition chain_entry :: "string \<Rightarrow> (string option \<times> string option) option" where
  "chain_entry chain =
     (case map_of chains_evm chain of
        Some (nm, sb) \<Rightarrow> Some (Some nm, Some sb)
      | None \<Rightarrow>
          (case map_of object_prototype chain of
             Some nm \<Rightarrow> Some (nm, None)
           | None \<Rightarrow> None))"

text \<open>
  A result is \<open>Inl\<close> of the message of the exception that leaves the function, or
  \<open>Inr\<close> of the object it returns. Reading \<^verbatim>\<open>this.chains.evm[chain].settings\<close> where
  \<^verbatim>\<open>this.chains.evm[chain]\<close> is \<^verbatim>\<open>undefined\<close> is a \<^verbatim>\<open>TypeError\<close> outside the
  \<^verbatim>\<open>try\<close>, and so is an exception of \<^verbatim>\<open>new Alchemy(...)\<close>.
\<close>

definition getEVMWalletData :: "world \<Rightarrow> string \<Rightarrow> string \<Rightarrow> string + probe_result" where
  "getEVMWalletData w address chain =
     (case chain_entry chain of
        None \<Rightarrow> Inl ''TypeError''
      | Some (nm, sb) \<Rightarrow>
          (case alchemy w chain address of
             ConstructorThrows e \<Rightarrow> Inl e
           | Client (Fulfilled b) (Fulfilled n) \<Rightarrow>
               Inr \<lparr>success = True, balance = Some (Text b), tokenCount = Some n,
                    txCount = None, name = nm, symbol = sb\<rparr>
           | Client _ _ \<Rightarrow> Inr failed))"

definition getBTCWalletData :: "world \<Rightarrow> string \<Rightarrow> string + probe_result" where
  "getBTCWalletData w address =
     (case blockstream w address of
        Fulfilled (ChainStats funded spent txs) \<Rightarrow>
          Inr \<lparr>success = True, balance = Some (minus_number funded spent), tokenCount = None,
               txCount = txs, name = Some ''Bitcoin'', symbol = Some ''BTC''\<rparr>
      | Rejected \<Rightarrow> Inr failed)"

definition getXRPWalletData :: "world \<Rightarrow> string \<Rightarrow> string + probe_result" where
  "getXRPWalletData w address =
     (case ripple w address of
        Fulfilled (Balances bs tc) \<Rightarrow>
          Inr \<lparr>success = True,
               balance = Some (case find (\<lambda>b. fst b = ''XRP'') bs of
                                 Some (cur, Some v) \<Rightarrow> ParseFloat v
                               | Some (cur, None) \<Rightarrow> NaN
                               | None \<Rightarrow> Units 0),
               tokenCount = None,
               txCount = Some (case tc of Some n \<Rightarrow> n | None \<Rightarrow> 0),
               name = Some ''Ripple'', symbol = Some ''XRP''\<rparr>
      | Rejected \<Rightarrow> Inr failed)"

text \<open>
  \<^verbatim>\<open>results\<close> of \<^verbatim>\<open>scanAddress\<close> is one object holding \<^verbatim>\<open>type\<close> and one key per chain;
  here the chain keys are the domain of \<open>perChain\<close>.
\<close>

record scan_data =
  type :: addr_type
  perChain :: "string \<rightharpoonup> probe_result"

text \<open>\<^verbatim>\<open>{ success: false, error }\<close> or \<^verbatim>\<open>{ success: true, data }\<close>\<close>

datatype scan_result = ScanFailure string | ScanSuccess scan_data

fun scan_success :: "scan_result \<Rightarrow> bool" where
  "scan_success (ScanFailure e) = False"
| "scan_success (ScanSuccess d) = True"

text \<open>
  The fan-out over \<^verbatim>\<open>Object.entries(this.chains.evm)\<close> followed by
  \<^verbatim>\<open>Promise.all\<close>: every probe that returns stores its object under its chain key; a
  probe that raises rejects the join with its message.
\<close>

fun join_evm :: "world \<Rightarrow> string \<Rightarrow> string list \<Rightarrow> (string \<rightharpoonup> probe_result)
                  \<Rightarrow> string + (string \<rightharpoonup> probe_result)" where
  "join_evm w address [] m = Inr m"
| "join_evm w address (c # cs) m =
     (case getEVMWalletData w address c of
        Inl e \<Rightarrow> Inl e
      | Inr d \<Rightarrow> join_evm w address cs (m(c \<mapsto> d)))"

text \<open>The probes \<^verbatim>\<open>scanAddress\<close> invokes, by chain key.\<close>

definition probes_invoked :: "string \<Rightarrow> string list" where
  "probes_invoked address =
     (case identifyAddressType address of
        None \<Rightarrow> []
      | Some evm \<Rightarrow> map fst chains_evm
      | Some btc \<Rightarrow> [''btc'']
      | Some xrp \<Rightarrow> [''xrp''])"

definition scanAddress :: "world \<Rightarrow> string \<Rightarrow> scan_result" where
  "scanAddress w address =
     (case identifyAddressType address of
        None \<Rightarrow> ScanFailure ''Invalid address format''
      | Some evm \<Rightarrow>
          (case join_evm w address (map fst chains_evm) Map.empty of
             Inl e \<Rightarrow> ScanFailure e
           | Inr m \<Rightarrow> ScanSuccess \<lparr>type = evm, perChain = m\<rparr>)
      | Some btc \<Rightarrow>
          (case getBTCWalletData w address of
             Inl e \<Rightarrow> ScanFailure e
           | Inr d \<Rightarrow> ScanSuccess \<lparr>type = btc, perChain = [''btc'' \<mapsto> d]\<rparr>)
      | Some xrp \<Rightarrow>
          (case getXRPWalletData w address of
             Inl e \<Rightarrow> ScanFailure e
           | Inr d \<Rightarrow> ScanSuccess \<lparr>type = xrp, perChain = [''xrp'' \<mapsto> d]\<rparr>))"

section \<open>Formcarry submission\<close>

text \<open>
  \<^verbatim>\<open>axios.post\<close> resolves with a response status, or rejects with an error whose
  \<^verbatim>\<open>error.response.status\<close> may be present. The sink answers the attempts in order:
  \<open>sink 0\<close> is the answer to the next POST.
\<close>

datatype post_result = Responds nat | Fails "nat option"

datatype notice =
    FollowUpMenu
  | Oops
  | Restarting
  | StartText
  | ChooseOptionMenu
  | AuthLoading
  | CredentialPrompt
  | SkippedNotice
  | PreparingAuth
  | InvalidAddressPrompt
  | ScanLoading
  | ScanFailedNotice
  | InvalidSeedPhrase
  | InvalidPrivateKey
  | EmptyText
  | StartLoading
  | MainMenu

text \<open>
  What one call of \<^verbatim>\<open>sendToFormcarry\<close> and the retries it schedules do, in order: a POST
  of the data, a \<^verbatim>\<open>setTimeout\<close> of so many milliseconds before the next call, a message
  to the user. The message listed is the one the call sends first; what happens when the
  chat transport rejects it is the matter of \<open>relay_resolves\<close> below.
\<close>

datatype 'a relay_event = Post 'a | Sleep nat | Notify notice

fun sendToFormcarry :: "(nat \<Rightarrow> post_result) \<Rightarrow> 'a \<Rightarrow> nat \<Rightarrow> nat \<Rightarrow> 'a relay_event list" where
  "sendToFormcarry sink data retries delay =
     Post data #
     (case sink 0 of
        Responds st \<Rightarrow> (if st = 200 then [Notify FollowUpMenu] else [Notify Oops])
      | Fails code \<Rightarrow>
          (if code = Some 429 \<and> retries > 0
           then Sleep (delay * 2) #
                sendToFormcarry (\<lambda>i. sink (Suc i)) data (retries - 1) (delay * 2)
           else [Notify Oops]))"

declare sendToFormcarry.simps [simp del]

text \<open>The default arguments \<^verbatim>\<open>retries = 3, delay = 1000\<close>.\<close>

definition default_retries :: nat where
  "default_retries = 3"

definition default_delay :: nat where
  "default_delay = 1000"

fun delays :: "'a relay_event list \<Rightarrow> nat list" where
  "delays [] = []"
| "delays (Sleep ms # es) = ms # delays es"
| "delays (e # es) = delays es"

fun posts :: "'a relay_event list \<Rightarrow> nat" where
  "posts [] = 0"
| "posts (Post d # es) = Suc (posts es)"
| "posts (e # es) = posts es"

section \<open>Text helpers\<close>

text \<open>
  Strings are lists of 8-bit characters; the white space of \<^verbatim>\<open>\s\<close> and of
  \<^verbatim>\<open>String.prototype.trim\<close> in that range is tab, line feed, vertical tab, form feed,
  carriage return, space and no-break space.
\<close>

definition is_space :: "char \<Rightarrow> bool" where
  "is_space c = (c \<in> set [CHR 0x09, CHR 0x0A, CHR 0x0B, CHR 0x0C, CHR 0x0D, CHR 0x20, CHR 0xA0])"

definition trim :: "string \<Rightarrow> string" where
  "trim s = rev (dropWhile is_space (rev (dropWhile is_space s)))"

text \<open>
  \<^verbatim>\<open>s.split(/\s+/)\<close>: the pieces between maximal runs of white space, an empty piece
  before a leading run and after a trailing run included; \<open>cur\<close> is the piece being read
  (reversed) and \<open>insep\<close> tells that a separator run is being read.
\<close>

fun pieces :: "string \<Rightarrow> bool \<Rightarrow> string \<Rightarrow> string list" where
  "pieces cur insep [] = [rev cur]"
| "pieces cur insep (c # cs) =
     (if is_space c
      then (if insep then pieces cur True cs else rev cur # pieces [] True cs)
      else pieces (c # cur) False cs)"

definition split_ws :: "string \<Rightarrow> string list" where
  "split_ws s = pieces [] False s"

text \<open>\<^verbatim>\<open>s.slice(-n)\<close>\<close>

definition slice_last :: "nat \<Rightarrow> string \<Rightarrow> string" where
  "slice_last n s = drop (length s - n) s"

fun digits :: "nat \<Rightarrow> string" where
  "digits n = (if n < 10 then [char_of (48 + n)] else digits (n div 10) @ [char_of (48 + n mod 10)])"

declare digits.simps [simp del]

text \<open>\<^verbatim>\<open>id.toString()\<close> of an integer identifier.\<close>

definition toString :: "int \<Rightarrow> string" where
  "toString i = (if i < 0 then CHR ''-'' # digits (nat (- i)) else digits (nat i))"

section \<open>User sessions\<close>

datatype step = choosing_option | awaiting_address | awaiting_auth | providing_input

text \<open>
  One object of \<^verbatim>\<open>userData\<close>. A field the object does not have is \<open>None\<close>.
  \<open>authMethod\<close> and \<open>option\<close> hold the callback token as it was received.
\<close>

record session =
  step :: step
  sessionId :: string
  option :: "string option"
  walletAddress :: "string option"
  addressType :: "addr_type option"
  authMethod :: "string option"

definition new_session :: "string \<Rightarrow> session" where
  "new_session sid = \<lparr>step = choosing_option, sessionId = sid, option = None,
                      walletAddress = None, addressType = None, authMethod = None\<rparr>"

text \<open>\<open>hex\<close> is the text of \<^verbatim>\<open>crypto.randomBytes(4).toString('hex')\<close>.\<close>

definition generateSessionId :: "string \<Rightarrow> int \<Rightarrow> string" where
  "generateSessionId hex userId = ''TRUST-'' @ hex @ ''-'' @ slice_last 4 (toString userId)"

section \<open>The event loop\<close>

text \<open>
  \<^verbatim>\<open>userData\<close> maps a chat id to a session object. Handlers keep a reference to the
  object across an \<^verbatim>\<open>await\<close> while \<^verbatim>\<open>userData[chatId]\<close> may be replaced or deleted
  in between, so objects live in a store and \<open>userData\<close> holds references.

  A handler runs up to its first \<^verbatim>\<open>await\<close>; what it does to the sessions after an
  \<^verbatim>\<open>await\<close> or inside a \<^verbatim>\<open>setTimeout\<close> callback is a \<open>task\<close> that the loop runs
  later, in any order. Calls of the chat transport (\<^verbatim>\<open>sendMessage\<close>,
  \<^verbatim>\<open>editMessageText\<close>, \<^verbatim>\<open>deleteMessage\<close>) are recorded in \<open>outbox\<close> and do not
  touch the sessions; when such a call rejects, the rest of its handler is abandoned,
  which is a task that never runs.
\<close>

datatype task =
    StartTimer int string
  | AuthTimer int string
  | ScanCont nat string addr_type
  | SubmitCont int

datatype intent =
    Send int notice
  | Probe string string
  | Relay int "(string \<times> string option) list relay_event list"
  | Raised int string

record state =
  userData :: "int \<rightharpoonup> nat"
  heap :: "nat \<Rightarrow> session"
  fresh :: nat
  pending :: "task list"
  outbox :: "intent list"

definition init :: state where
  "init = \<lparr>userData = Map.empty, heap = (\<lambda>r. new_session []), fresh = 0,
           pending = [], outbox = []\<rparr>"

text \<open>
  What the outside supplies while one inbound event is handled: the random bytes for a
  session created by \<^verbatim>\<open>ensureUserData\<close> and for the session id of \<^verbatim>\<open>/start\<close>, the
  providers' answers, the text of \<^verbatim>\<open>new Date().toISOString()\<close>, the answers of the
  form endpoint to the POSTs of one submission, and whether the chat transport delivers
  the first and the second message that \<^verbatim>\<open>sendToFormcarry\<close> sends to the user.
\<close>

record env =
  hex :: string
  start_hex :: string
  net :: world
  clock :: string
  formcarry :: "nat \<Rightarrow> post_result"
  telegram :: "nat \<Rightarrow> bool"

definition emit :: "intent list \<Rightarrow> state \<Rightarrow> state" where
  "emit xs s = s\<lparr>outbox := outbox s @ xs\<rparr>"

definition later :: "task \<Rightarrow> state \<Rightarrow> state" where
  "later t s = s\<lparr>pending := pending s @ [t]\<rparr>"

definition modify :: "nat \<Rightarrow> (session \<Rightarrow> session) \<Rightarrow> state \<Rightarrow> state" where
  "modify r f s = s\<lparr>heap := (heap s)(r := f (heap s r))\<rparr>"

definition ensureUserData :: "int \<Rightarrow> string \<Rightarrow> state \<Rightarrow> nat \<times> state" where
  "ensureUserData chatId hx s =
     (case userData s chatId of
        Some r \<Rightarrow> (r, s)
      | None \<Rightarrow>
          (fresh s,
           s\<lparr>userData := (userData s)(chatId \<mapsto> fresh s),
             heap := (heap s)(fresh s := new_session (generateSessionId hx chatId)),
             fresh := Suc (fresh s)\<rparr>))"

text \<open>The \<^verbatim>\<open>callback_query\<close> handler up to its first \<^verbatim>\<open>await\<close>.\<close>

definition callback_query :: "int \<Rightarrow> string \<Rightarrow> env \<Rightarrow> state \<Rightarrow> state" where
  "callback_query chatId data e s0 =
     (let (r, s) = ensureUserData chatId (hex e) s0 in
      if data = ''restart_bot'' then
        emit [Send chatId Restarting, Send chatId StartText] s
      else if data = ''import_another_wallet'' then
        emit [Send chatId ChooseOptionMenu] (modify r (\<lambda>u. u\<lparr>step := choosing_option\<rparr>) s)
      else if data = ''private_key'' \<or> data = ''seed_phrase'' then
        later (AuthTimer chatId data) (emit [Send chatId AuthLoading] s)
      else if data = ''skip_scan'' then
        (let s' = modify r (\<lambda>u. u\<lparr>step := awaiting_auth\<rparr>) s in
         case option (heap s r) of
           None \<Rightarrow> emit [Raised chatId ''TypeError''] s'
         | Some opt \<Rightarrow> emit [Send chatId SkippedNotice] s')
      else
        emit [Send chatId PreparingAuth]
          (modify r (\<lambda>u. u\<lparr>option := Some data, step := awaiting_address\<rparr>) s))"

text \<open>
  The check of the \<^verbatim>\<open>providing_input\<close> branch: \<open>Inl\<close> is the \<^verbatim>\<open>TypeError\<close> of
  \<^verbatim>\<open>text.trim()\<close> or \<^verbatim>\<open>text.length\<close> on a message without text, \<open>Inr\<close> holds
  \<^verbatim>\<open>isValid\<close> and \<^verbatim>\<open>errorMessage\<close>.
\<close>

definition validate_input :: "string option \<Rightarrow> string option \<Rightarrow> string + bool \<times> notice" where
  "validate_input method text =
     (if method = Some ''seed_phrase'' then
        (case text of
           None \<Rightarrow> Inl ''TypeError''
         | Some t \<Rightarrow>
             (let isValid = (length (split_ws (trim t)) \<ge> 12)
              in Inr (isValid, if \<not> isValid then InvalidSeedPhrase else EmptyText)))
      else if method = Some ''private_key'' then
        (case text of
           None \<Rightarrow> Inl ''TypeError''
         | Some t \<Rightarrow>
             (let isValid = (length t \<ge> 64)
              in Inr (isValid, if \<not> isValid then InvalidPrivateKey else EmptyText)))
      else Inr (False, EmptyText))"

fun type_text :: "addr_type \<Rightarrow> string" where
  "type_text evm = ''evm''"
| "type_text btc = ''btc''"
| "type_text xrp = ''xrp''"

text \<open>The object literal \<^verbatim>\<open>formData\<close>; a value \<open>None\<close> is \<^verbatim>\<open>undefined\<close>.\<close>

definition formData :: "session \<Rightarrow> string option \<Rightarrow> string \<Rightarrow> (string \<times> string option) list" where
  "formData user text now =
     [(''option'', option user),
      (''authMethod'', authMethod user),
      (''input'', text),
      (''walletAddress'', walletAddress user),
      (''addressType'', map_option type_text (addressType user)),
      (''sessionId'', Some (sessionId user)),
      (''timestamp'', Some now)]"

text \<open>
  Whether the promise of a call of \<^verbatim>\<open>sendToFormcarry\<close> is fulfilled. After a response
  the call awaits its message to the user; when the transport rejects that message the
  \<^verbatim>\<open>catch\<close> block awaits the failure notice, and the call is rejected when that one is
  rejected too (an error of the chat transport carries no \<^verbatim>\<open>response.status\<close>, so it
  never takes the retry branch). After a 429 with retries left the call sets a timer and
  returns. After any other error it awaits the failure notice.
\<close>

definition relay_resolves :: "(nat \<Rightarrow> post_result) \<Rightarrow> nat \<Rightarrow> (nat \<Rightarrow> bool) \<Rightarrow> bool" where
  "relay_resolves snk retries delivered =
     (case snk 0 of
        Responds st \<Rightarrow> delivered 0 \<or> delivered 1
      | Fails code \<Rightarrow>
          (if code = Some 429 \<and> retries > 0 then True else delivered 0))"

text \<open>
  \<^verbatim>\<open>sendToFormcarry(bot, chatId, formData)\<close> with the default arguments: what the call
  and its retries do with the form data of the session.
\<close>

definition relay_call :: "int \<Rightarrow> session \<Rightarrow> string option \<Rightarrow> env \<Rightarrow> intent" where
  "relay_call chatId user text e =
     Relay chatId (sendToFormcarry (formcarry e) (formData user text (clock e))
                     default_retries default_delay)"

text \<open>
  The \<^verbatim>\<open>message\<close> handler; \<open>raw\<close> is \<^verbatim>\<open>msg.text\<close>, absent for a message that is not
  text. \<^verbatim>\<open>identifyAddressType(undefined)\<close> tests the text \<^verbatim>\<open>undefined\<close>.
\<close>

definition message :: "int \<Rightarrow> string option \<Rightarrow> env \<Rightarrow> state \<Rightarrow> state" where
  "message chatId raw e s0 =
     (let text = map_option trim raw;
          (r, s) = ensureUserData chatId (hex e) s0;
          user = heap s r
      in
      if step user = awaiting_address then
        (let t = (case text of None \<Rightarrow> ''undefined'' | Some x \<Rightarrow> x) in
         case identifyAddressType t of
           None \<Rightarrow> emit [Send chatId InvalidAddressPrompt] s
         | Some ty \<Rightarrow>
             (let s' = emit (Send chatId ScanLoading # map (\<lambda>c. Probe c t) (probes_invoked t)) s in
              case scanAddress (net e) t of
                ScanFailure err \<Rightarrow> emit [Send chatId ScanFailedNotice] s'
              | ScanSuccess d \<Rightarrow> later (ScanCont r t ty) s'))
      else if step user = providing_input then
        (case validate_input (authMethod user) text of
           Inl err \<Rightarrow> emit [Raised chatId err] s
         | Inr (isValid, errorMessage) \<Rightarrow>
             if \<not> isValid then emit [Send chatId errorMessage] s
             else
               (let s' = emit [relay_call chatId user text e] s
                in if relay_resolves (formcarry e) default_retries (telegram e)
                   then later (SubmitCont chatId) s'
                   else s'))
      else s)"

text \<open>The \<^verbatim>\<open>/start\<close> handler, registered with \<^verbatim>\<open>bot.onText(/\/start/, ...)\<close>.\<close>

definition start_command :: "int \<Rightarrow> int \<Rightarrow> env \<Rightarrow> state \<Rightarrow> state" where
  "start_command chatId fromId e s0 =
     (let (r, s) = ensureUserData chatId (hex e) s0;
          sid = generateSessionId (start_hex e) fromId
      in later (StartTimer chatId sid) (emit [Send chatId StartLoading] s))"

text \<open>The part of a handler that runs later.\<close>

fun fire :: "task \<Rightarrow> state \<Rightarrow> state" where
  "fire (StartTimer chatId sid) s =
     emit [Send chatId MainMenu] s
       \<lparr>userData := (userData s)(chatId \<mapsto> fresh s),
        heap := (heap s)(fresh s := new_session sid),
        fresh := Suc (fresh s)\<rparr>"
| "fire (AuthTimer chatId data) s =
     (case userData s chatId of
        None \<Rightarrow> emit [Raised chatId ''TypeError''] s
      | Some r \<Rightarrow>
          emit [Send chatId CredentialPrompt]
            (modify r (\<lambda>u. u\<lparr>authMethod := Some data, step := providing_input\<rparr>) s))"
| "fire (ScanCont r t ty) s =
     modify r (\<lambda>u. u\<lparr>step := awaiting_auth, walletAddress := Some t, addressType := Some ty\<rparr>) s"
| "fire (SubmitCont chatId) s = s\<lparr>userData := (userData s)(chatId := None)\<rparr>"

text \<open>
  An inbound update or the running of a pending task. The library emits \<^verbatim>\<open>message\<close>
  for every message and then calls the \<^verbatim>\<open>onText\<close> callbacks whose expression is found
  in the text; of those only \<^verbatim>\<open>/start\<close> touches the sessions.
\<close>

datatype action =
    Message int int "string option" env
  | CallbackQuery int string env
  | Fire nat

definition mentions_start :: "string option \<Rightarrow> bool" where
  "mentions_start raw = (case raw of None \<Rightarrow> False | Some t \<Rightarrow> search (Lit ''/start'') t)"

fun exec :: "action \<Rightarrow> state \<Rightarrow> state" where
  "exec (Message chatId fromId raw e) s =
     (let s' = message chatId raw e s
      in if mentions_start raw then start_command chatId fromId e s' else s')"
| "exec (CallbackQuery chatId data e) s = callback_query chatId data e s"
| "exec (Fire n) s =
     (if n < length (pending s)
      then fire (pending s ! n) (s\<lparr>pending := take n (pending s) @ drop (Suc n) (pending s)\<rparr>)
      else s)"

fun exec_all :: "action list \<Rightarrow> state \<Rightarrow> state" where
  "exec_all [] s = s"
| "exec_all (a # as) s = exec_all as (exec a s)"

section \<open>Example inputs\<close>

text \<open>Every provider call is rejected.\<close>

definition providers_down :: world where
  "providers_down = \<lparr>alchemy = (\<lambda>c a. Client Rejected Rejected),
                     blockstream = (\<lambda>a. Rejected),
                     ripple = (\<lambda>a. Rejected)\<rparr>"

definition evm_example :: string where
  "evm_example = ''0x52908400098527886E0F7030069857D2E4169EE7''"


definition always_429 :: "nat \<Rightarrow> post_result" where
  "always_429 i = Fails (Some 429)"

text \<open>
  The alphabet the classifier's BTC rule is compared with: letters and digits of ASCII,
  capital I and capital O left out.
\<close>

definition ascii_alnum :: "char \<Rightarrow> bool" where
  "ascii_alnum c = (c \<in> set ''abcdefghijklmnopqrstuvwxyzABCDEFGHIJKLMNOPQRSTUVWXYZ0123456789'')"

definition btc_char :: "char \<Rightarrow> bool" where
  "btc_char c = (ascii_alnum c \<and> c \<noteq> CHR ''I'' \<and> c \<noteq> CHR ''O'')"

definition zero_ell_example :: string where
  "zero_ell_example = ''1l0l0l0l0l0l0l0l0l0l0l0l0l''"

definition genesis_example :: string where
  "genesis_example = ''1A1zP1eP5QGefi2DMPTfTL5SLmv7DivfNa''"

definition env0 :: env where
  "env0 = \<lparr>hex = ''00000000'', start_hex = ''11111111'', net = providers_down,
           clock = ''2024-01-01T00:00:00.000Z'', formcarry = (\<lambda>i. Responds 200),
           telegram = (\<lambda>i. True)\<rparr>"

text \<open>The form endpoint answers 500 and the chat transport delivers nothing.\<close>

definition env_down :: env where
  "env_down = \<lparr>hex = ''00000000'', start_hex = ''11111111'', net = providers_down,
               clock = ''2024-01-01T00:00:00.000Z'', formcarry = (\<lambda>i. Fails (Some 500)),
               telegram = (\<lambda>i. False)\<rparr>"

text \<open>
  The invariant of the event loop: an object in \<^verbatim>\<open>providing_input\<close> holds one of the two
  authentication tokens, and so does every pending authentication timer.
\<close>

definition auth_tokens :: "string set" where
  "auth_tokens = {''private_key'', ''seed_phrase''}"

definition method_known :: "state \<Rightarrow> bool" where
  "method_known s =
     ((\<forall>r. step (heap s r) = providing_input \<longrightarrow>
            (\<exists>d \<in> auth_tokens. authMethod (heap s r) = Some d)) \<and>
      (\<forall>c d. AuthTimer c d \<in> set (pending s) \<longrightarrow> d \<in> auth_tokens))"

text \<open>A chat with a new session, and the same chat after it chose an issue.\<close>

definition chat7 :: state where
  "chat7 = exec (CallbackQuery 7 ''restart_bot'' env0) init"

definition chat7_address :: state where
  "chat7_address = exec (CallbackQuery 7 ''harvest'' env0) init"

text \<open>
  The words of a text as the specification counts them: a word begins at every character
  that is not white space and follows white space or the beginning of the text; \<open>gap\<close>
  tells that the previous character was white space.
\<close>

fun word_count :: "bool \<Rightarrow> string \<Rightarrow> nat" where
  "word_count gap [] = 0"
| "word_count gap (c # cs) =
     (if is_space c then word_count True cs
      else (if gap then 1 else 0) + word_count False cs)"

definition words_in :: "string \<Rightarrow> nat" where
  "words_in s = word_count True s"

text \<open>Whether reading \<open>s\<close> ends inside a run of white space.\<close>

fun ends_in_gap :: "bool \<Rightarrow> string \<Rightarrow> bool" where
  "ends_in_gap gap [] = gap"
| "ends_in_gap gap (c # cs) = ends_in_gap (is_space c) cs"

text \<open>Chat 7 after it chose an authentication method and the timer ran; sample inputs.\<close>

definition seed_state :: state where
  "seed_state = exec_all [CallbackQuery 7 ''seed_phrase'' env0, Fire 0] init"

definition key_state :: state where
  "key_state = exec_all [CallbackQuery 7 ''private_key'' env0, Fire 0] init"

text \<open>
  Chat 7 after it chose an issue, sent an address that was scanned, chose the seed
  phrase and both timers ran.
\<close>

definition full_state :: state where
  "full_state =
     exec_all [CallbackQuery 7 ''harvest'' env0, Message 7 7 (Some evm_example) env0, Fire 0,
               CallbackQuery 7 ''seed_phrase'' env0, Fire 0] init"

definition twelve_words :: string where
  "twelve_words = ''a b c d e f g h i j k l''"

definition key63 :: string where
  "key63 = replicate 63 (CHR ''a'')"

definition key64 :: string where
  "key64 = replicate 64 (CHR ''a'')"

section \<open>Properties of the scanner\<close>

lemma evm_example_type: "identifyAddressType evm_example = Some evm"
  by code_simp

lemma hello_type: "identifyAddressType ''hello'' = None"
  by code_simp

lemma chain_keys: "map fst chains_evm = [''eth'', ''polygon'', ''bsc'']"
  by (simp add: chains_evm_def)

lemma configured_entry:
  "c \<in> set (map fst chains_evm) \<Longrightarrow> \<exists>nm sb. chain_entry c = Some (Some nm, Some sb)"
  by (auto simp: chains_evm_def chain_entry_def)

lemma getEVM_raises:
  "getEVMWalletData w a c = Inl e \<longleftrightarrow>
     (chain_entry c = None \<and> e = ''TypeError'') \<or>
     (chain_entry c \<noteq> None \<and> alchemy w c a = ConstructorThrows e)"
  by (auto simp: getEVMWalletData_def split: option.splits alchemy_sdk.splits settled.splits)


lemma join_evm_Inr:
  "join_evm w a cs m = Inr m' \<Longrightarrow>
     (\<forall>c \<in> set cs. \<exists>d. getEVMWalletData w a c = Inr d \<and> m' c = Some d) \<and>
     (\<forall>c. c \<notin> set cs \<longrightarrow> m' c = m c)"
proof (induction cs arbitrary: m)
  case Nil
  then show ?case by simp
next
  case (Cons c cs)
  from Cons.prems obtain d where d: "getEVMWalletData w a c = Inr d"
    and rest: "join_evm w a cs (m(c \<mapsto> d)) = Inr m'"
    by (auto split: sum.splits)
  from Cons.IH[OF rest]
  have ih1: "\<forall>x \<in> set cs. \<exists>d. getEVMWalletData w a x = Inr d \<and> m' x = Some d"
    and ih2: "\<forall>x. x \<notin> set cs \<longrightarrow> m' x = (m(c \<mapsto> d)) x"
    by blast+
  have "\<exists>d. getEVMWalletData w a c = Inr d \<and> m' c = Some d"
  proof (cases "c \<in> set cs")
    case True
    with ih1 show ?thesis by blast
  next
    case False
    with ih2 have "m' c = Some d" by simp
    with d show ?thesis by blast
  qed
  moreover have "\<forall>x. x \<notin> set (c # cs) \<longrightarrow> m' x = m x"
    using ih2 by simp
  ultimately show ?case using ih1 by simp
qed

lemma join_evm_Inl:
  "join_evm w a cs m = Inl e \<Longrightarrow> \<exists>c \<in> set cs. getEVMWalletData w a c = Inl e"
  by (induction cs arbitrary: m) (auto split: sum.splits)


lemma btc_returns: "\<exists>d. getBTCWalletData w a = Inr d"
  by (simp add: getBTCWalletData_def split: settled.splits btc_data.splits)

lemma xrp_returns: "\<exists>d. getXRPWalletData w a = Inr d"
  by (simp add: getXRPWalletData_def split: settled.splits xrp_data.splits)

text \<open>
  C1. The aggregate result of a scan is a success exactly when the address is classified
  and no exception leaves the probe layer; the only exception the probe layer can let
  through is the one of constructing a provider client, before any request is made.
  How many probes come back failed plays no part. An address that is not classified
  fails the scan and invokes no probe.
\<close>

theorem scan_success_iff_classified:
  "(scan_success (scanAddress w a) \<longleftrightarrow>
      identifyAddressType a \<noteq> None \<and>
      (identifyAddressType a = Some evm \<longrightarrow>
         (\<forall>c \<in> set (map fst chains_evm). \<forall>e. alchemy w c a \<noteq> ConstructorThrows e))) \<and>
   (identifyAddressType a = None \<longrightarrow>
      probes_invoked a = [] \<and> scanAddress w a = ScanFailure ''Invalid address format'')"
proof (cases "identifyAddressType a")
  case None
  then show ?thesis by (simp add: scanAddress_def probes_invoked_def)
next
  case (Some ty)
  show ?thesis
  proof (cases ty)
    case evm
    have keys: "\<forall>c \<in> set (map fst chains_evm). chain_entry c \<noteq> None"
      using configured_entry by fastforce
    show ?thesis
    proof (cases "join_evm w a (map fst chains_evm) Map.empty")
      case (Inl e)
      from join_evm_Inl[OF Inl] obtain c where c: "c \<in> set (map fst chains_evm)"
        and "getEVMWalletData w a c = Inl e" by blast
      with keys have "alchemy w c a = ConstructorThrows e"
        by (auto simp: getEVM_raises)
      with c Inl Some evm show ?thesis
        by (auto simp: scanAddress_def)
    next
      case (Inr m)
      from join_evm_Inr[OF Inr]
      have "\<forall>c \<in> set (map fst chains_evm). \<exists>d. getEVMWalletData w a c = Inr d"
        by blast
      hence "\<forall>c \<in> set (map fst chains_evm). \<forall>e. alchemy w c a \<noteq> ConstructorThrows e"
        using keys by (metis getEVM_raises sum.distinct(1))
      with Inr Some evm show ?thesis by (simp add: scanAddress_def)
    qed
  next
    case btc
    with Some btc_returns[of w a] show ?thesis by (auto simp: scanAddress_def)
  next
    case xrp
    with Some xrp_returns[of w a] show ?thesis by (auto simp: scanAddress_def)
  qed
qed

theorem scan_success_iff_classified_witness:
  "scan_success (scanAddress providers_down evm_example) \<and>
   \<not> scan_success (scanAddress providers_down ''hello'') \<and>
   probes_invoked ''hello'' = []"
  using scan_success_iff_classified[of providers_down evm_example]
        scan_success_iff_classified[of providers_down "''hello''"]
  by (simp add: evm_example_type hello_type providers_down_def)






section \<open>Properties of the classifier\<close>

lemma iter_cls_nil:
  "[] \<in> set (iter (\<lambda>t. run (Cls rs) t) m n s) \<longleftrightarrow>
     m \<le> length s \<and> length s \<le> n \<and> list_all (in_class rs) s"
proof (induction n arbitrary: m s)
  case 0
  then show ?case by auto
next
  case (Suc n)
  show ?case
  proof (cases s)
    case Nil
    then show ?thesis by simp
  next
    case (Cons c cs)
    then show ?thesis using Suc.IH[of "m - 1" cs] by auto
  qed
qed

lemma btc_class_char: "in_class btc_class c \<longleftrightarrow> btc_char c"
proof (cases c)
  case (Char x1 x2 x3 x4 x5 x6 x7 x8)
  then show ?thesis
    by (cases x1; cases x2; cases x3; cases x4; cases x5; cases x6; cases x7; cases x8;
        simp add: in_class_def in_range_def btc_class_def ascii_alnum_def btc_char_def)
qed

lemma one_three_class:
  "in_class [(CHR ''1'', CHR ''1''), (CHR ''3'', CHR ''3'')] c \<longleftrightarrow> c = CHR ''1'' \<or> c = CHR ''3''"
proof (cases c)
  case (Char x1 x2 x3 x4 x5 x6 x7 x8)
  then show ?thesis
    by (cases x1; cases x2; cases x3; cases x4; cases x5; cases x6; cases x7; cases x8;
        simp add: in_class_def in_range_def)
qed

lemma rep_cls_nil:
  "[] \<in> set (run (Rep (Cls rs) m n) t) \<longleftrightarrow>
     m \<le> length t \<and> length t \<le> n \<and> list_all (in_class rs) t"
  by (simp only: run.simps iter_cls_nil)

lemma run_Lit_iff: "t \<in> set (run (Lit l) s) \<longleftrightarrow> s = l @ t"
proof
  assume "t \<in> set (run (Lit l) s)"
  hence "take (length l) s = l" and "t = drop (length l) s"
    by (auto split: if_splits)
  thus "s = l @ t" by (metis append_take_drop_id)
next
  assume "s = l @ t"
  thus "t \<in> set (run (Lit l) s)" by simp
qed

lemma run_Cls_iff: "t \<in> set (run (Cls rs) s) \<longleftrightarrow> (\<exists>c. s = c # t \<and> in_class rs c)"
  by (cases s) auto

lemma test_Seq: "test (Seq a b) s \<longleftrightarrow> (\<exists>t \<in> set (run a s). [] \<in> set (run b t))"
  by (auto simp: test_def)

lemma validateBTC_shape:
  "validateBTCAddress s \<longleftrightarrow>
     (\<exists>t. (s = ''bc1'' @ t \<or> s = ''1'' @ t \<or> s = ''3'' @ t) \<and>
          25 \<le> length t \<and> length t \<le> 39 \<and> list_all btc_char t)"
proof -
  have ok: "[] \<in> set (run (Rep (Cls btc_class) 25 39) t) \<longleftrightarrow>
      25 \<le> length t \<and> length t \<le> 39 \<and> list_all btc_char t" for t
    using btc_class_char by (simp add: rep_cls_nil list_all_iff del: run.simps(5))
  have "validateBTCAddress s \<longleftrightarrow>
      (\<exists>t. (s = ''bc1'' @ t \<or> (\<exists>c. s = c # t \<and> (c = CHR ''1'' \<or> c = CHR ''3''))) \<and>
           [] \<in> set (run (Rep (Cls btc_class) 25 39) t))"
    by (auto simp: validateBTCAddress_def test_Seq run_Lit_iff run_Cls_iff one_three_class
             simp del: run.simps(1,2,5))
  also have "\<dots> \<longleftrightarrow> (\<exists>t. (s = ''bc1'' @ t \<or> s = ''1'' @ t \<or> s = ''3'' @ t) \<and>
          25 \<le> length t \<and> length t \<le> 39 \<and> list_all btc_char t)"
    unfolding ok by auto
  finally show ?thesis .
qed

lemma validateEVM_head: "validateEVMAddress s \<Longrightarrow> \<exists>t. s = ''0x'' @ t"
  by (auto simp: validateEVMAddress_def test_Seq run_Lit_iff simp del: run.simps(1,2,5))

lemma evm_not_btc: "validateEVMAddress s \<Longrightarrow> \<not> validateBTCAddress s"
  using validateEVM_head[of s] by (auto simp: validateBTC_shape)

lemma btc_char_not_IO: "btc_char c \<Longrightarrow> c \<noteq> CHR ''I'' \<and> c \<noteq> CHR ''O''"
  by (simp add: btc_char_def)

text \<open>
  C8, as the code has it. The BTC rule accepts exactly the strings made of \<^verbatim>\<open>bc1\<close>,
  \<^verbatim>\<open>1\<close> or \<^verbatim>\<open>3\<close> followed by 25 to 39 ASCII letters or digits other than capital
  I and capital O; the digit zero and the small letter l are accepted. An address is
  classified as BTC exactly when the rule accepts it, so no string that holds a capital I
  or a capital O is classified as BTC.
\<close>

theorem btc_rule:
  "(validateBTCAddress s \<longleftrightarrow>
      (\<exists>p r. s = p @ r \<and> p \<in> {''bc1'', ''1'', ''3''} \<and> 25 \<le> length r \<and> length r \<le> 39 \<and>
             (\<forall>c \<in> set r. ascii_alnum c \<and> c \<noteq> CHR ''I'' \<and> c \<noteq> CHR ''O''))) \<and>
   (identifyAddressType s = Some btc \<longleftrightarrow> validateBTCAddress s) \<and>
   (CHR ''I'' \<in> set s \<or> CHR ''O'' \<in> set s \<longrightarrow> identifyAddressType s \<noteq> Some btc)"
proof -
  let ?tail = "\<lambda>r. 25 \<le> length r \<and> length r \<le> 39 \<and>
             (\<forall>c \<in> set r. ascii_alnum c \<and> c \<noteq> CHR ''I'' \<and> c \<noteq> CHR ''O'')"
  have tail: "?tail r \<longleftrightarrow> 25 \<le> length r \<and> length r \<le> 39 \<and> list_all btc_char r" for r
    by (simp add: list_all_iff btc_char_def)
  have shape: "validateBTCAddress s \<longleftrightarrow>
      (\<exists>p r. s = p @ r \<and> p \<in> {''bc1'', ''1'', ''3''} \<and> ?tail r)"
  proof
    assume "validateBTCAddress s"
    then obtain t where t: "s = ''bc1'' @ t \<or> s = ''1'' @ t \<or> s = ''3'' @ t"
      and ok: "25 \<le> length t \<and> length t \<le> 39 \<and> list_all btc_char t"
      unfolding validateBTC_shape by blast
    from ok tail[of t] have "?tail t" by blast
    with t show "\<exists>p r. s = p @ r \<and> p \<in> {''bc1'', ''1'', ''3''} \<and> ?tail r"
      by blast
  next
    assume "\<exists>p r. s = p @ r \<and> p \<in> {''bc1'', ''1'', ''3''} \<and> ?tail r"
    then obtain p r where s: "s = p @ r" and p: "p \<in> {''bc1'', ''1'', ''3''}" and r: "?tail r"
      by blast
    from r tail[of r] have "25 \<le> length r \<and> length r \<le> 39 \<and> list_all btc_char r"
      by blast
    moreover from s p have "s = ''bc1'' @ r \<or> s = ''1'' @ r \<or> s = ''3'' @ r" by blast
    ultimately show "validateBTCAddress s" unfolding validateBTC_shape by blast
  qed
  have ident: "identifyAddressType s = Some btc \<longleftrightarrow> validateBTCAddress s"
    using evm_not_btc[of s] by (auto simp: identifyAddressType_def)
  have excl: "CHR ''I'' \<in> set s \<or> CHR ''O'' \<in> set s \<longrightarrow> identifyAddressType s \<noteq> Some btc"
  proof
    assume io: "CHR ''I'' \<in> set s \<or> CHR ''O'' \<in> set s"
    show "identifyAddressType s \<noteq> Some btc"
    proof
      assume "identifyAddressType s = Some btc"
      with ident shape obtain p r where s: "s = p @ r" and p: "p \<in> {''bc1'', ''1'', ''3''}"
        and r: "?tail r" by blast
      from p have "CHR ''I'' \<notin> set p \<and> CHR ''O'' \<notin> set p" by auto
      moreover from r have "CHR ''I'' \<notin> set r \<and> CHR ''O'' \<notin> set r" by blast
      ultimately show False using io s by simp
    qed
  qed
  from shape ident excl show ?thesis by (intro conjI)
qed

lemma zero_ell_btc: "identifyAddressType zero_ell_example = Some btc"
  by code_simp

lemma genesis_btc: "validateBTCAddress genesis_example"
  by code_simp

theorem btc_rule_counterexample:
  "identifyAddressType zero_ell_example = Some btc \<and>
   CHR ''0'' \<in> set (drop 1 zero_ell_example) \<and> CHR ''l'' \<in> set (drop 1 zero_ell_example)"
  by (simp add: zero_ell_btc) (simp add: zero_ell_example_def)

theorem btc_rule_witness:
  "identifyAddressType genesis_example = Some btc \<and>
   identifyAddressType (''1'' @ replicate 30 CHR ''O'') \<noteq> Some btc"
  using btc_rule[of genesis_example, THEN conjunct2, THEN conjunct1]
        btc_rule[of "''1'' @ replicate 30 CHR ''O''", THEN conjunct2, THEN conjunct2]
  by (simp add: genesis_btc)

section \<open>Properties of the submission relay\<close>

lemma relay_retry:
  "sink 0 = Fails (Some 429) \<Longrightarrow>
   sendToFormcarry sink data (Suc r) d =
     Post data # Sleep (d * 2) # sendToFormcarry (\<lambda>i. sink (Suc i)) data r (d * 2)"
  by (simp add: sendToFormcarry.simps[of sink data "Suc r" d])

lemma relay_exhausted:
  "sink 0 = Fails code \<Longrightarrow> sendToFormcarry sink data 0 d = [Post data, Notify Oops]"
  by (simp add: sendToFormcarry.simps[of sink data 0 d])

text \<open>
  C2, as the code has it. When every attempt is answered with status 429, the relay
  doubles the delay before it waits: for a delay argument \<open>d\<close> it posts, waits \<open>2d\<close>,
  posts, waits \<open>4d\<close>, posts, waits \<open>8d\<close>, posts a fourth time and then, the three
  retries being spent, sends the failure notice.
\<close>

theorem relay_backoff:
  assumes "\<forall>i \<le> default_retries. sink i = Fails (Some 429)"
  shows "sendToFormcarry sink data default_retries d =
           [Post data, Sleep (2 * d), Post data, Sleep (4 * d), Post data, Sleep (8 * d),
            Post data, Notify Oops] \<and>
         delays (sendToFormcarry sink data default_retries d) = [2 * d, 4 * d, 8 * d] \<and>
         posts (sendToFormcarry sink data default_retries d) = 4"
proof -
  have s0: "sink 0 = Fails (Some 429)" and s1: "sink (Suc 0) = Fails (Some 429)"
    and s2: "sink (Suc (Suc 0)) = Fails (Some 429)"
    and s3: "sink (Suc (Suc (Suc 0))) = Fails (Some 429)"
    using assms by (simp_all add: default_retries_def)
  have "sendToFormcarry sink data (Suc (Suc (Suc 0))) d =
           [Post data, Sleep (2 * d), Post data, Sleep (4 * d), Post data, Sleep (8 * d),
            Post data, Notify Oops]"
    by (simp add: relay_retry relay_exhausted s0 s1 s2 s3 mult.commute)
  hence tr: "sendToFormcarry sink data default_retries d =
           [Post data, Sleep (2 * d), Post data, Sleep (4 * d), Post data, Sleep (8 * d),
            Post data, Notify Oops]"
    by (simp add: default_retries_def numeral_3_eq_3)
  show ?thesis unfolding tr by simp
qed

theorem relay_backoff_witness:
  "delays (sendToFormcarry always_429 ''payload'' default_retries default_delay) = [2000, 4000, 8000] \<and>
   last (sendToFormcarry always_429 ''payload'' default_retries default_delay) = Notify Oops"
  using relay_backoff[of always_429 "''payload''" default_delay]
  by (simp add: always_429_def default_delay_def)

theorem relay_delays_counterexample:
  "delays (sendToFormcarry always_429 ''payload'' default_retries default_delay)
     \<noteq> [default_delay, 2 * default_delay, 4 * default_delay]"
  by (simp add: relay_retry relay_exhausted always_429_def default_retries_def
      default_delay_def numeral_3_eq_3)

section \<open>Properties of the session machine\<close>

lemma emit_simps [simp]:
  "userData (emit xs s) = userData s" "heap (emit xs s) = heap s" "fresh (emit xs s) = fresh s"
  "pending (emit xs s) = pending s" "outbox (emit xs s) = outbox s @ xs"
  by (simp_all add: emit_def)

lemma later_simps [simp]:
  "userData (later t s) = userData s" "heap (later t s) = heap s" "fresh (later t s) = fresh s"
  "pending (later t s) = pending s @ [t]" "outbox (later t s) = outbox s"
  by (simp_all add: later_def)

lemma modify_simps [simp]:
  "userData (modify r f s) = userData s" "heap (modify r f s) = (heap s)(r := f (heap s r))"
  "fresh (modify r f s) = fresh s" "pending (modify r f s) = pending s"
  "outbox (modify r f s) = outbox s"
  by (simp_all add: modify_def)

lemma ensure_known:
  "userData s c = Some r \<Longrightarrow> ensureUserData c hx s = (r, s)"
  by (simp add: ensureUserData_def)

lemma ensure_frame:
  "ensureUserData c hx s = (r, s') \<Longrightarrow>
     pending s' = pending s \<and> outbox s' = outbox s \<and> userData s' c = Some r \<and>
     (\<forall>q. heap s' q = heap s q \<or> heap s' q = new_session (generateSessionId hx c))"
  by (auto simp: ensureUserData_def split: option.splits)

lemma ensure_method_known:
  assumes "method_known s" "ensureUserData c hx s = (r, s')"
  shows "method_known s'"
proof -
  from ensure_frame[OF assms(2)] have p: "pending s' = pending s"
    and h: "\<forall>q. heap s' q = heap s q \<or> heap s' q = new_session (generateSessionId hx c)"
    by blast+
  have "step (heap s' q) = providing_input \<longrightarrow> (\<exists>d \<in> auth_tokens. authMethod (heap s' q) = Some d)" for q
    using h[rule_format, of q] assms(1) by (auto simp: method_known_def new_session_def)
  with p assms(1) show ?thesis by (simp add: method_known_def)
qed

lemma callback_method_known:
  assumes "method_known s" shows "method_known (callback_query c d e s)"
proof -
  obtain r s' where en: "ensureUserData c (hex e) s = (r, s')" by (cases "ensureUserData c (hex e) s")
  from ensure_method_known[OF assms en] have k: "method_known s'" .
  show ?thesis using k
    by (auto simp: callback_query_def en method_known_def auth_tokens_def Let_def split: option.splits)
qed

lemma message_method_known:
  assumes "method_known s" shows "method_known (message c raw e s)"
proof -
  obtain r s' where en: "ensureUserData c (hex e) s = (r, s')" by (cases "ensureUserData c (hex e) s")
  from ensure_method_known[OF assms en] have k: "method_known s'" .
  show ?thesis using k
    by (auto simp: message_def en method_known_def Let_def
        split: option.splits scan_result.splits sum.splits prod.splits)
qed

lemma start_method_known:
  assumes "method_known s" shows "method_known (start_command c f e s)"
proof -
  obtain r s' where en: "ensureUserData c (hex e) s = (r, s')" by (cases "ensureUserData c (hex e) s")
  from ensure_method_known[OF assms en] have k: "method_known s'" .
  show ?thesis using k
    by (auto simp: start_command_def en method_known_def Let_def)
qed

lemma fire_method_known:
  assumes "method_known s" "\<forall>c d. t = AuthTimer c d \<longrightarrow> d \<in> auth_tokens"
  shows "method_known (fire t s)"
  using assms
  by (cases t) (auto simp: method_known_def new_session_def split: option.splits)

lemma remove_nth_subset: "set (take n xs @ drop (Suc n) xs) \<subseteq> set xs"
  by (metis set_append Un_least set_take_subset set_drop_subset)

lemma exec_method_known:
  assumes "method_known s" shows "method_known (exec a s)"
proof (cases a)
  case (Message c f raw e)
  then show ?thesis
    using message_method_known[OF assms] start_method_known by (simp add: Let_def)
next
  case (CallbackQuery c d e)
  then show ?thesis using callback_method_known[OF assms] by simp
next
  case (Fire n)
  show ?thesis
  proof (cases "n < length (pending s)")
    case False
    with Fire assms show ?thesis by simp
  next
    case True
    let ?s = "s\<lparr>pending := take n (pending s) @ drop (Suc n) (pending s)\<rparr>"
    have k: "method_known ?s"
      using assms remove_nth_subset[of n "pending s"] by (auto simp: method_known_def)
    have "pending s ! n \<in> set (pending s)" using True by simp
    hence t: "\<forall>c d. pending s ! n = AuthTimer c d \<longrightarrow> d \<in> auth_tokens"
      using assms by (auto simp: method_known_def)
    from fire_method_known[OF k t] True Fire show ?thesis by simp
  qed
qed

lemma init_method_known: "method_known init"
  by (simp add: method_known_def init_def new_session_def)

lemma exec_all_method_known: "method_known s \<Longrightarrow> method_known (exec_all as s)"
  by (induction as arbitrary: s) (simp_all add: exec_method_known)

text \<open>
  C10. In every state the event loop reaches from the initial one, by any sequence of
  messages, callback queries and task runs, a session whose step is
  \<^verbatim>\<open>providing_input\<close> has \<open>authMethod\<close> set, to \<^verbatim>\<open>private_key\<close> or to
  \<^verbatim>\<open>seed_phrase\<close>.
\<close>

theorem auth_input_has_method:
  assumes "userData (exec_all as init) c = Some r"
    and "step (heap (exec_all as init) r) = providing_input"
  shows "authMethod (heap (exec_all as init) r) = Some ''private_key'' \<or>
         authMethod (heap (exec_all as init) r) = Some ''seed_phrase''"
  using exec_all_method_known[OF init_method_known, of as] assms(2)
  by (auto simp: method_known_def auth_tokens_def)

lemma key_run:
  "userData (exec_all [CallbackQuery 7 ''private_key'' env0, Fire 0] init) 7 = Some 0 \<and>
   step (heap (exec_all [CallbackQuery 7 ''private_key'' env0, Fire 0] init) 0) = providing_input"
  by (simp add: callback_query_def ensureUserData_def init_def)

theorem auth_input_has_method_witness:
  "userData (exec_all [CallbackQuery 7 ''private_key'' env0, Fire 0] init) 7 = Some 0 \<and>
   step (heap (exec_all [CallbackQuery 7 ''private_key'' env0, Fire 0] init) 0) = providing_input \<and>
   (authMethod (heap (exec_all [CallbackQuery 7 ''private_key'' env0, Fire 0] init) 0) = Some ''private_key'' \<or>
    authMethod (heap (exec_all [CallbackQuery 7 ''private_key'' env0, Fire 0] init) 0) = Some ''seed_phrase'')"
  using auth_input_has_method[of "[CallbackQuery 7 ''private_key'' env0, Fire 0]" 7 0] key_run
  by blast

lemma message_idle:
  assumes "userData s c = Some r" "step (heap s r) \<noteq> awaiting_address"
    "step (heap s r) \<noteq> providing_input"
  shows "message c raw e s = s"
  using assms by (simp add: message_def ensure_known Let_def)

lemma start_frame:
  assumes "userData s c = Some r"
  shows "userData (start_command c f e s) = userData s \<and> heap (start_command c f e s) = heap s"
  using assms by (simp add: start_command_def ensure_known Let_def)

text \<open>
  C3, as the code has it. The callback handler dispatches on the token alone and never
  reads the step. For a session in \<^verbatim>\<open>choosing_option\<close>: a message, whatever its text,
  and the tokens \<^verbatim>\<open>restart_bot\<close> and \<^verbatim>\<open>import_another_wallet\<close> leave the step as it
  is; \<^verbatim>\<open>private_key\<close> and \<^verbatim>\<open>seed_phrase\<close> schedule the timer whose run sets the step
  to \<^verbatim>\<open>providing_input\<close>; \<^verbatim>\<open>skip_scan\<close> sets it to \<^verbatim>\<open>awaiting_auth\<close>; every
  other token, an issue category or not, is stored as the option and sets the step to
  \<^verbatim>\<open>awaiting_address\<close>.
\<close>

theorem choosing_option_events:
  assumes "userData s c = Some r" and "step (heap s r) = choosing_option"
  shows "(userData (exec (Message c f raw e) s) c = Some r \<and>
          step (heap (exec (Message c f raw e) s) r) = choosing_option) \<and>
         step (heap (callback_query c ''restart_bot'' e s) r) = choosing_option \<and>
         step (heap (callback_query c ''import_another_wallet'' e s) r) = choosing_option \<and>
         (\<forall>d. d = ''private_key'' \<or> d = ''seed_phrase'' \<longrightarrow>
           step (heap (callback_query c d e s) r) = choosing_option \<and>
           pending (callback_query c d e s) = pending s @ [AuthTimer c d] \<and>
           step (heap (exec (Fire (length (pending s))) (callback_query c d e s)) r)
             = providing_input) \<and>
         step (heap (callback_query c ''skip_scan'' e s) r) = awaiting_auth \<and>
         (\<forall>d. d \<notin> {''restart_bot'', ''import_another_wallet'', ''private_key'',
                   ''seed_phrase'', ''skip_scan''} \<longrightarrow>
           step (heap (callback_query c d e s) r) = awaiting_address \<and>
           option (heap (callback_query c d e s) r) = Some d)"
proof -
  have idle: "message c raw e s = s"
    using assms by (simp add: message_idle)
  have msg: "userData (exec (Message c f raw e) s) c = Some r \<and>
         step (heap (exec (Message c f raw e) s) r) = choosing_option"
    using assms start_frame[OF assms(1), of f e] by (simp add: idle Let_def)
  have restart: "step (heap (callback_query c ''restart_bot'' e s) r) = choosing_option"
    using assms by (simp add: callback_query_def ensure_known)
  have another: "step (heap (callback_query c ''import_another_wallet'' e s) r) = choosing_option"
    using assms by (simp add: callback_query_def ensure_known)
  have skip: "step (heap (callback_query c ''skip_scan'' e s) r) = awaiting_auth"
    using assms by (simp add: callback_query_def ensure_known Let_def split: option.splits)
  have auth: "\<forall>d. d = ''private_key'' \<or> d = ''seed_phrase'' \<longrightarrow>
           step (heap (callback_query c d e s) r) = choosing_option \<and>
           pending (callback_query c d e s) = pending s @ [AuthTimer c d] \<and>
           step (heap (exec (Fire (length (pending s))) (callback_query c d e s)) r)
             = providing_input"
    using assms by (auto simp: callback_query_def ensure_known)
  have other: "\<forall>d. d \<notin> {''restart_bot'', ''import_another_wallet'', ''private_key'',
                   ''seed_phrase'', ''skip_scan''} \<longrightarrow>
           step (heap (callback_query c d e s) r) = awaiting_address \<and>
           option (heap (callback_query c d e s) r) = Some d"
    using assms by (simp add: callback_query_def ensure_known)
  from msg[THEN conjunct1] msg[THEN conjunct2] restart another auth skip other
  show ?thesis by (intro conjI)
qed

lemma chat7_facts: "userData chat7 7 = Some 0 \<and> step (heap chat7 0) = choosing_option"
  by (simp add: chat7_def callback_query_def ensureUserData_def init_def new_session_def)

theorem choosing_option_events_witness:
  "step (heap (exec (Message 7 7 (Some ''hello'') env0) chat7) 0) = choosing_option \<and>
   step (heap (callback_query 7 ''help'' env0 chat7) 0) = awaiting_address \<and>
   step (heap (exec (Fire (length (pending chat7))) (callback_query 7 ''private_key'' env0 chat7)) 0)
     = providing_input"
  using choosing_option_events[OF chat7_facts[THEN conjunct1] chat7_facts[THEN conjunct2],
          of 7 "Some ''hello''" env0]
  by (simp del: exec.simps)

theorem choosing_option_counterexample:
  "userData chat7 7 = Some 0 \<and> step (heap chat7 0) = choosing_option \<and>
   step (heap (exec_all [CallbackQuery 7 ''skip_scan'' env0] chat7) 0) = awaiting_auth \<and>
   step (heap (exec_all [CallbackQuery 7 ''seed_phrase'' env0, Fire 0] chat7) 0) = providing_input"
  by (simp add: chat7_def callback_query_def ensureUserData_def init_def new_session_def)

text \<open>
  C9. For a session in \<^verbatim>\<open>awaiting_address\<close> the token \<^verbatim>\<open>skip_scan\<close> sets the step to
  \<^verbatim>\<open>awaiting_auth\<close> at once and leaves \<open>walletAddress\<close> and \<open>addressType\<close> as they
  were, so unset when they were unset; it schedules nothing and what it sends holds no
  probe.
\<close>

theorem skip_scan_frame:
  assumes "userData s c = Some r" and "step (heap s r) = awaiting_address"
  shows "step (heap (callback_query c ''skip_scan'' e s) r) = awaiting_auth \<and>
         walletAddress (heap (callback_query c ''skip_scan'' e s) r) = walletAddress (heap s r) \<and>
         addressType (heap (callback_query c ''skip_scan'' e s) r) = addressType (heap s r) \<and>
         userData (callback_query c ''skip_scan'' e s) = userData s \<and>
         pending (callback_query c ''skip_scan'' e s) = pending s \<and>
         (\<exists>xs. outbox (callback_query c ''skip_scan'' e s) = outbox s @ xs \<and>
               (\<forall>ch a. Probe ch a \<notin> set xs))"
  using assms by (simp add: callback_query_def ensure_known Let_def split: option.splits)

lemma chat7_address_facts:
  "userData chat7_address 7 = Some 0 \<and> step (heap chat7_address 0) = awaiting_address \<and>
   walletAddress (heap chat7_address 0) = None \<and> addressType (heap chat7_address 0) = None"
  by (simp add: chat7_address_def callback_query_def ensureUserData_def init_def new_session_def)

theorem skip_scan_frame_witness:
  "step (heap (callback_query 7 ''skip_scan'' env0 chat7_address) 0) = awaiting_auth \<and>
   walletAddress (heap (callback_query 7 ''skip_scan'' env0 chat7_address) 0) = None \<and>
   addressType (heap (callback_query 7 ''skip_scan'' env0 chat7_address) 0) = None"
  using skip_scan_frame[OF chat7_address_facts[THEN conjunct1]
          chat7_address_facts[THEN conjunct2, THEN conjunct1], of env0]
        chat7_address_facts
  by simp

lemma pieces_length:
  "length (pieces cur gap s) =
     word_count gap s + (if ends_in_gap gap s then 1 else 0) + (if gap then 0 else 1)"
  by (induction s arbitrary: cur gap) auto

lemma ends_in_gap_last:
  "ends_in_gap gap s = (if s = [] then gap else is_space (last s))"
  by (induction s arbitrary: gap) auto

lemma word_count_leading: "word_count True (dropWhile is_space s) = word_count True s"
  by (induction s) auto

lemma word_count_trailing:
  "\<forall>c \<in> set w. is_space c \<Longrightarrow> word_count gap (v @ w) = word_count gap v"
proof (induction v arbitrary: gap)
  case Nil
  then show ?case by (induction w arbitrary: gap) auto
next
  case (Cons c v)
  then show ?case by simp
qed

lemma word_count_rstrip:
  "word_count gap (rev (dropWhile is_space (rev a))) = word_count gap a"
proof -
  have "a = rev (dropWhile is_space (rev a)) @ rev (takeWhile is_space (rev a))"
    by (metis rev_append rev_rev_ident takeWhile_dropWhile_id)
  moreover have "\<forall>c \<in> set (rev (takeWhile is_space (rev a))). is_space c"
    by (auto dest: set_takeWhileD)
  ultimately show ?thesis using word_count_trailing by metis
qed

lemma words_in_trim: "words_in (trim s) = words_in s"
  by (simp add: words_in_def trim_def word_count_rstrip word_count_leading)

lemma trim_ends:
  assumes "trim s \<noteq> []"
  shows "\<not> is_space (hd (trim s)) \<and> \<not> is_space (last (trim s))"
proof -
  let ?a = "dropWhile is_space s"
  let ?v = "rev (dropWhile is_space (rev ?a))"
  have v: "trim s = ?v" by (simp add: trim_def)
  from assms v have ne: "dropWhile is_space (rev ?a) \<noteq> []" by simp
  hence "\<not> is_space (hd (dropWhile is_space (rev ?a)))" by (rule hd_dropWhile)
  hence l: "\<not> is_space (last ?v)" using ne by (simp add: last_rev)
  have "?a = ?v @ rev (takeWhile is_space (rev ?a))"
    by (metis rev_append rev_rev_ident takeWhile_dropWhile_id)
  moreover from ne have "?v \<noteq> []" by simp
  ultimately have "hd ?a = hd ?v" by (metis hd_append2)
  moreover have "?a \<noteq> []"
  proof
    assume "?a = []"
    with ne show False by (metis dropWhile.simps(1) rev.simps(1))
  qed
  hence "\<not> is_space (hd ?a)" by (rule hd_dropWhile)
  ultimately show ?thesis using l v by simp
qed

lemma split_trim_length:
  "length (split_ws (trim s)) = max 1 (words_in s)"
proof (cases "trim s")
  case Nil
  hence "words_in s = 0" using words_in_trim[of s] by (simp add: words_in_def)
  with Nil show ?thesis by (simp add: split_ws_def)
next
  case (Cons c cs)
  hence ne: "trim s \<noteq> []" by simp
  from trim_ends[OF ne] Cons have hd: "\<not> is_space c" and lst: "\<not> is_space (last (trim s))"
    by simp_all
  have "\<not> ends_in_gap False (trim s)" using ne lst by (simp add: ends_in_gap_last)
  hence "length (split_ws (trim s)) = word_count False (trim s) + 1"
    by (simp add: split_ws_def pieces_length)
  also have "\<dots> = word_count True (trim s)" using Cons hd by simp
  also have "\<dots> = words_in s" using words_in_trim[of s] by (simp add: words_in_def)
  finally have "length (split_ws (trim s)) = words_in s" .
  moreover have "1 \<le> word_count True (trim s)" using Cons hd by simp
  hence "1 \<le> words_in s" using words_in_trim[of s] by (simp add: words_in_def)
  ultimately show ?thesis by simp
qed

lemma seed_check: "12 \<le> length (split_ws (trim (trim t))) \<longleftrightarrow> 12 \<le> words_in t"
  by (simp add: split_trim_length words_in_trim max_def)


lemma message_providing:
  assumes "userData s c = Some r" and "step (heap s r) = providing_input"
  shows "message c (Some t) e s =
     (case validate_input (authMethod (heap s r)) (Some (trim t)) of
        Inl err \<Rightarrow> emit [Raised c err] s
      | Inr (isValid, errorMessage) \<Rightarrow>
          if \<not> isValid then emit [Send c errorMessage] s
          else if relay_resolves (formcarry e) default_retries (telegram e)
          then later (SubmitCont c) (emit [relay_call c (heap s r) (Some (trim t)) e] s)
          else emit [relay_call c (heap s r) (Some (trim t)) e] s)"
  using assms by (auto simp: message_def ensure_known Let_def split: sum.splits)

text \<open>
  C6. For a session in \<^verbatim>\<open>providing_input\<close> and a text message: with the method
  \<^verbatim>\<open>seed_phrase\<close> the input is accepted exactly when the text has at least 12 words
  separated by white space, with \<^verbatim>\<open>private_key\<close> exactly when the trimmed text has at
  least 64 characters. An accepted input is handed to the relay, whose first act is the
  POST of the form data; a rejected one only sends the method's error message, and the
  session stays in \<^verbatim>\<open>providing_input\<close>.
\<close>

theorem credential_validation:
  assumes "userData s c = Some r" and "step (heap s r) = providing_input"
  shows "(authMethod (heap s r) = Some ''seed_phrase'' \<longrightarrow>
            (12 \<le> words_in t \<longrightarrow>
               message c (Some t) e s =
                 (if relay_resolves (formcarry e) default_retries (telegram e)
                  then later (SubmitCont c) (emit [relay_call c (heap s r) (Some (trim t)) e] s)
                  else emit [relay_call c (heap s r) (Some (trim t)) e] s)) \<and>
            (words_in t < 12 \<longrightarrow>
               message c (Some t) e s = emit [Send c InvalidSeedPhrase] s \<and>
               step (heap (message c (Some t) e s) r) = providing_input)) \<and>
         (authMethod (heap s r) = Some ''private_key'' \<longrightarrow>
            (64 \<le> length (trim t) \<longrightarrow>
               message c (Some t) e s =
                 (if relay_resolves (formcarry e) default_retries (telegram e)
                  then later (SubmitCont c) (emit [relay_call c (heap s r) (Some (trim t)) e] s)
                  else emit [relay_call c (heap s r) (Some (trim t)) e] s)) \<and>
            (length (trim t) < 64 \<longrightarrow>
               message c (Some t) e s = emit [Send c InvalidPrivateKey] s \<and>
               step (heap (message c (Some t) e s) r) = providing_input)) \<and>
         (\<exists>rest. relay_call c (heap s r) (Some (trim t)) e =
                  Relay c (Post (formData (heap s r) (Some (trim t)) (clock e)) # rest))"
proof -
  have seed: "validate_input (Some ''seed_phrase'') (Some (trim t)) =
      Inr (12 \<le> words_in t, if 12 \<le> words_in t then EmptyText else InvalidSeedPhrase)"
    by (simp add: validate_input_def seed_check Let_def)
  have key: "validate_input (Some ''private_key'') (Some (trim t)) =
      Inr (64 \<le> length (trim t), if 64 \<le> length (trim t) then EmptyText else InvalidPrivateKey)"
    by (simp add: validate_input_def Let_def)
  have post: "\<exists>rest. relay_call c (heap s r) (Some (trim t)) e =
                  Relay c (Post (formData (heap s r) (Some (trim t)) (clock e)) # rest)"
    by (simp add: relay_call_def
        sendToFormcarry.simps[of "formcarry e" _ default_retries default_delay])
  have main: "(authMethod (heap s r) = Some ''seed_phrase'' \<longrightarrow>
            (12 \<le> words_in t \<longrightarrow>
               message c (Some t) e s =
                 (if relay_resolves (formcarry e) default_retries (telegram e)
                  then later (SubmitCont c) (emit [relay_call c (heap s r) (Some (trim t)) e] s)
                  else emit [relay_call c (heap s r) (Some (trim t)) e] s)) \<and>
            (words_in t < 12 \<longrightarrow>
               message c (Some t) e s = emit [Send c InvalidSeedPhrase] s \<and>
               step (heap (message c (Some t) e s) r) = providing_input)) \<and>
         (authMethod (heap s r) = Some ''private_key'' \<longrightarrow>
            (64 \<le> length (trim t) \<longrightarrow>
               message c (Some t) e s =
                 (if relay_resolves (formcarry e) default_retries (telegram e)
                  then later (SubmitCont c) (emit [relay_call c (heap s r) (Some (trim t)) e] s)
                  else emit [relay_call c (heap s r) (Some (trim t)) e] s)) \<and>
            (length (trim t) < 64 \<longrightarrow>
               message c (Some t) e s = emit [Send c InvalidPrivateKey] s \<and>
               step (heap (message c (Some t) e s) r) = providing_input))"
    using assms(2) by (auto simp: message_providing[OF assms] seed key)
  from main post show ?thesis by (simp only: simp_thms)
qed

lemma seed_state_facts:
  "userData seed_state 7 = Some 0 \<and> step (heap seed_state 0) = providing_input \<and>
   authMethod (heap seed_state 0) = Some ''seed_phrase''"
  by (simp add: seed_state_def callback_query_def ensureUserData_def init_def)

lemma seed_state_blank:
  "option (heap seed_state 0) = None \<and> walletAddress (heap seed_state 0) = None \<and>
   addressType (heap seed_state 0) = None \<and> pending seed_state = []"
  by (simp add: seed_state_def callback_query_def ensureUserData_def init_def new_session_def)

lemma key_state_facts:
  "userData key_state 7 = Some 0 \<and> step (heap key_state 0) = providing_input \<and>
   authMethod (heap key_state 0) = Some ''private_key''"
  by (simp add: key_state_def callback_query_def ensureUserData_def init_def)

lemma three_words: "words_in ''apple banana cherry'' = 3"
  by code_simp

lemma twelve_words_count: "words_in twelve_words = 12"
  by code_simp

lemma twelve_words_trim: "trim twelve_words = twelve_words"
  by code_simp

lemma key63_length: "length (trim key63) = 63"
  by code_simp

lemma key64_length: "length (trim key64) = 64"
  by code_simp

lemma env0_resolves: "relay_resolves (formcarry env0) default_retries (telegram env0)"
  by (simp add: relay_resolves_def env0_def)

theorem credential_validation_witness:
  "message 7 (Some ''apple banana cherry'') env0 seed_state
     = emit [Send 7 InvalidSeedPhrase] seed_state \<and>
   message 7 (Some twelve_words) env0 seed_state
     = later (SubmitCont 7)
         (emit [relay_call 7 (heap seed_state 0) (Some twelve_words) env0] seed_state) \<and>
   message 7 (Some key63) env0 key_state = emit [Send 7 InvalidPrivateKey] key_state \<and>
   message 7 (Some key64) env0 key_state
     = later (SubmitCont 7)
         (emit [relay_call 7 (heap key_state 0) (Some (trim key64)) env0] key_state)"
  using credential_validation[OF seed_state_facts[THEN conjunct1]
          seed_state_facts[THEN conjunct2, THEN conjunct1], of "''apple banana cherry''" env0]
        credential_validation[OF seed_state_facts[THEN conjunct1]
          seed_state_facts[THEN conjunct2, THEN conjunct1], of twelve_words env0]
        credential_validation[OF key_state_facts[THEN conjunct1]
          key_state_facts[THEN conjunct2, THEN conjunct1], of key63 env0]
        credential_validation[OF key_state_facts[THEN conjunct1]
          key_state_facts[THEN conjunct2, THEN conjunct1], of key64 env0]
  by (simp add: seed_state_facts key_state_facts three_words twelve_words_count
      twelve_words_trim key63_length key64_length env0_resolves)

text \<open>
  C7, as the code has it. For a session in \<^verbatim>\<open>providing_input\<close> and a text that passes
  the check of its method, the handler calls the relay, whose first act is the POST of
  the object with the fields \<^verbatim>\<open>option\<close> (absent when the session has none),
  \<^verbatim>\<open>authMethod\<close>, \<^verbatim>\<open>input\<close> (the trimmed text), \<^verbatim>\<open>walletAddress\<close> and
  \<^verbatim>\<open>addressType\<close> (absent when the session has none), \<^verbatim>\<open>sessionId\<close> (the session
  token) and \<^verbatim>\<open>timestamp\<close> (the text of the clock). When the relay call is fulfilled,
  as it is whenever the transport delivers the relay's first message to the user, the
  continuation of the handler is pending and its run, in whatever state it comes,
  leaves the chat without a session; when the call is rejected nothing is pending and
  the session stays as it was.
\<close>

theorem valid_input_relays_and_deletes:
  assumes "userData s c = Some r" and "step (heap s r) = providing_input"
    and "validate_input (authMethod (heap s r)) (Some (trim t)) = Inr (True, m)"
  shows "outbox (message c (Some t) e s) =
           outbox s @
           [Relay c (sendToFormcarry (formcarry e) (formData (heap s r) (Some (trim t)) (clock e))
                       default_retries default_delay)] \<and>
         (\<exists>rest. sendToFormcarry (formcarry e) (formData (heap s r) (Some (trim t)) (clock e))
                    default_retries default_delay
                  = Post (formData (heap s r) (Some (trim t)) (clock e)) # rest) \<and>
         formData (heap s r) (Some (trim t)) (clock e) =
           [(''option'', option (heap s r)),
            (''authMethod'', authMethod (heap s r)),
            (''input'', Some (trim t)),
            (''walletAddress'', walletAddress (heap s r)),
            (''addressType'', map_option type_text (addressType (heap s r))),
            (''sessionId'', Some (sessionId (heap s r))),
            (''timestamp'', Some (clock e))] \<and>
         (relay_resolves (formcarry e) default_retries (telegram e) \<longrightarrow>
            pending (message c (Some t) e s) = pending s @ [SubmitCont c] \<and>
            userData (exec (Fire (length (pending s))) (message c (Some t) e s)) c = None) \<and>
         (\<not> relay_resolves (formcarry e) default_retries (telegram e) \<longrightarrow>
            pending (message c (Some t) e s) = pending s \<and>
            userData (message c (Some t) e s) c = Some r \<and>
            heap (message c (Some t) e s) r = heap s r) \<and>
         (telegram e 0 \<longrightarrow> relay_resolves (formcarry e) default_retries (telegram e)) \<and>
         (\<forall>s' n. n < length (pending s') \<and> pending s' ! n = SubmitCont c \<longrightarrow>
                 userData (exec (Fire n) s') c = None)"
proof -
  have out: "outbox (message c (Some t) e s) =
           outbox s @
           [Relay c (sendToFormcarry (formcarry e) (formData (heap s r) (Some (trim t)) (clock e))
                       default_retries default_delay)]"
    using assms(3) by (simp add: message_providing[OF assms(1,2)] relay_call_def)
  have post: "\<exists>rest. sendToFormcarry (formcarry e) (formData (heap s r) (Some (trim t)) (clock e))
                    default_retries default_delay
                  = Post (formData (heap s r) (Some (trim t)) (clock e)) # rest"
    by (simp add: sendToFormcarry.simps[of "formcarry e" _ default_retries default_delay])
  have fields: "formData (heap s r) (Some (trim t)) (clock e) =
           [(''option'', option (heap s r)),
            (''authMethod'', authMethod (heap s r)),
            (''input'', Some (trim t)),
            (''walletAddress'', walletAddress (heap s r)),
            (''addressType'', map_option type_text (addressType (heap s r))),
            (''sessionId'', Some (sessionId (heap s r))),
            (''timestamp'', Some (clock e))]"
    by (simp add: formData_def)
  have yes: "relay_resolves (formcarry e) default_retries (telegram e) \<longrightarrow>
            pending (message c (Some t) e s) = pending s @ [SubmitCont c] \<and>
            userData (exec (Fire (length (pending s))) (message c (Some t) e s)) c = None"
    using assms(3) by (simp add: message_providing[OF assms(1,2)])
  have no: "\<not> relay_resolves (formcarry e) default_retries (telegram e) \<longrightarrow>
            pending (message c (Some t) e s) = pending s \<and>
            userData (message c (Some t) e s) c = Some r \<and>
            heap (message c (Some t) e s) r = heap s r"
    using assms(1,3) by (simp add: message_providing[OF assms(1,2)])
  have tg: "telegram e 0 \<longrightarrow> relay_resolves (formcarry e) default_retries (telegram e)"
    by (simp add: relay_resolves_def split: post_result.splits)
  have run: "\<forall>s' n. n < length (pending s') \<and> pending s' ! n = SubmitCont c \<longrightarrow>
                 userData (exec (Fire n) s') c = None"
    by simp
  from out post fields yes no tg run show ?thesis by (intro conjI)
qed

lemma twelve_words_valid:
  "validate_input (Some ''seed_phrase'') (Some (trim twelve_words)) = Inr (True, EmptyText)"
  by (simp add: validate_input_def seed_check twelve_words_count Let_def)

lemma evm_example_trim: "trim evm_example = evm_example"
  by code_simp

lemma evm_example_no_start: "\<not> mentions_start (Some evm_example)"
  by code_simp

lemma evm_example_scanned: "\<exists>d. scanAddress providers_down evm_example = ScanSuccess d"
  by (simp add: scanAddress_def evm_example_type chain_keys getEVMWalletData_def
      chain_entry_def chains_evm_def providers_down_def)

lemma full_state_facts:
  "userData full_state 7 = Some 0 \<and> step (heap full_state 0) = providing_input \<and>
   authMethod (heap full_state 0) = Some ''seed_phrase'' \<and>
   option (heap full_state 0) = Some ''harvest'' \<and>
   walletAddress (heap full_state 0) = Some evm_example \<and>
   addressType (heap full_state 0) = Some evm \<and> pending full_state = []"
proof -
  from evm_example_scanned obtain d
    where d: "scanAddress providers_down evm_example = ScanSuccess d" by blast
  have net: "net env0 = providers_down" by (simp add: env0_def)
  show ?thesis
    by (simp add: full_state_def callback_query_def message_def ensureUserData_def init_def
        evm_example_trim evm_example_type evm_example_no_start net d Let_def)
qed

theorem valid_input_relays_and_deletes_witness:
  "(\<exists>rest. outbox (message 7 (Some twelve_words) env0 full_state) =
      outbox full_state @
      [Relay 7 (Post [(''option'', Some ''harvest''),
                      (''authMethod'', Some ''seed_phrase''),
                      (''input'', Some twelve_words),
                      (''walletAddress'', Some evm_example),
                      (''addressType'', Some ''evm''),
                      (''sessionId'', Some (sessionId (heap full_state 0))),
                      (''timestamp'', Some ''2024-01-01T00:00:00.000Z'')] # rest)]) \<and>
   userData (exec (Fire 0) (message 7 (Some twelve_words) env0 full_state)) 7 = None \<and>
   userData (message 7 (Some twelve_words) env_down full_state) 7 = Some 0"
proof -
  have v: "validate_input (authMethod (heap full_state 0)) (Some (trim twelve_words))
             = Inr (True, EmptyText)"
    using twelve_words_valid by (simp add: full_state_facts)
  have down: "\<not> relay_resolves (formcarry env_down) default_retries (telegram env_down)"
    by (simp add: relay_resolves_def env_down_def)
  note t = valid_input_relays_and_deletes[OF full_state_facts[THEN conjunct1]
          full_state_facts[THEN conjunct2, THEN conjunct1] v]
  from t[of env0] t[of env_down] env0_resolves down show ?thesis
    by (simp add: full_state_facts twelve_words_trim env0_def del: exec.simps) metis
qed

theorem payload_counterexample:
  "map_of (formData (heap seed_state 0) (Some twelve_words) (clock env0)) ''sessionToken'' = None \<and>
   map_of (formData (heap seed_state 0) (Some twelve_words) (clock env0)) ''option'' = Some None \<and>
   outbox (message 7 (Some (CHR '' '' # twelve_words)) env0 seed_state) =
     outbox seed_state @ [relay_call 7 (heap seed_state 0) (Some twelve_words) env0] \<and>
   userData (message 7 (Some twelve_words) env_down seed_state) 7 = Some 0 \<and>
   pending (message 7 (Some twelve_words) env_down seed_state) = []"
proof -
  have sp: "trim (CHR '' '' # twelve_words) = twelve_words" by code_simp
  have v: "validate_input (Some ''seed_phrase'') (Some twelve_words) = Inr (True, EmptyText)"
    using twelve_words_valid by (simp add: twelve_words_trim)
  have down: "\<not> relay_resolves (formcarry env_down) default_retries (telegram env_down)"
    by (simp add: relay_resolves_def env_down_def)
  show ?thesis
    by (simp add: message_providing[OF seed_state_facts[THEN conjunct1]
          seed_state_facts[THEN conjunct2, THEN conjunct1]]
        seed_state_facts seed_state_blank sp twelve_words_trim v down env0_resolves formData_def)
qed

end
